theory Spec2Isabelle
  imports Main
begin

section \<open>HTTP messages and JSON values\<close>

text \<open>
  The three services are FastAPI applications whose handlers return Python dictionaries;
  the framework sends such a value as a JSON response with status 200. A JSON value is
  modelled as a datatype (an object keeps its members in order, as a Python dict does),
  numbers as integers; floating-point numbers are outside the model. A string is
  modelled by the bytes of its UTF-8 encoding, so every string of the model is well-formed
  text (a Python string that holds a lone surrogate has no such encoding and is outside
  the model).
\<close>

datatype json =
    JNull
  | JBool bool
  | JInt int
  | JStr string
  | JArr "json list"
  | JObj "(string \<times> json) list"

text \<open>
  The framework writes a JSON response as
  \<^verbatim>\<open>json.dumps(content, ensure_ascii=False, separators=(",", ":"))\<close>: no white space
  between the tokens, the members of an object in their order, and inside a string only
  the quote, the backslash and the control characters below 0x20 escaped.
\<close>

definition digit_char :: "nat \<Rightarrow> char" where
  "digit_char d = char_of (48 + d)"

fun decimal :: "nat \<Rightarrow> string" where
  "decimal n = (if n < 10 then [digit_char n] else decimal (n div 10) @ [digit_char (n mod 10)])"

definition int_repr :: "int \<Rightarrow> string" where
  "int_repr i = (if i < 0 then CHR ''-'' # decimal (nat (- i)) else decimal (nat i))"

definition hex_char :: "nat \<Rightarrow> char" where
  "hex_char d = (if d < 10 then char_of (48 + d) else char_of (87 + d))"

definition escape_char :: "char \<Rightarrow> string" where
  "escape_char c =
     (if c = CHR 0x22 then [CHR 0x5C, CHR 0x22]
      else if c = CHR 0x5C then [CHR 0x5C, CHR 0x5C]
      else if c = CHR 0x08 then [CHR 0x5C, CHR ''b'']
      else if c = CHR 0x0C then [CHR 0x5C, CHR ''f'']
      else if c = CHR 0x0A then [CHR 0x5C, CHR ''n'']
      else if c = CHR 0x0D then [CHR 0x5C, CHR ''r'']
      else if c = CHR 0x09 then [CHR 0x5C, CHR ''t'']
      else if of_char c < (32 :: nat)
        then [CHR 0x5C, CHR ''u'', CHR ''0'', CHR ''0'',
              hex_char (of_char c div 16), hex_char (of_char c mod 16)]
      else [c])"

definition encode_basestring :: "string \<Rightarrow> string" where
  "encode_basestring s = CHR 0x22 # concat (map escape_char s) @ [CHR 0x22]"

fun json_dumps :: "json \<Rightarrow> string"
  and dumps_items :: "json list \<Rightarrow> string"
  and dumps_members :: "(string \<times> json) list \<Rightarrow> string" where
  "json_dumps JNull = ''null''"
| "json_dumps (JBool b) = (if b then ''true'' else ''false'')"
| "json_dumps (JInt i) = int_repr i"
| "json_dumps (JStr s) = encode_basestring s"
| "json_dumps (JArr vs) = ''['' @ dumps_items vs @ '']''"
| "json_dumps (JObj kvs) = ''{'' @ dumps_members kvs @ ''}''"
| "dumps_items [] = []"
| "dumps_items [v] = json_dumps v"
| "dumps_items (v # w # vs) = json_dumps v @ '','' @ dumps_items (w # vs)"
| "dumps_members [] = []"
| "dumps_members [(k, v)] = encode_basestring k @ '':'' @ json_dumps v"
| "dumps_members ((k, v) # m # kvs) =
     encode_basestring k @ '':'' @ json_dumps v @ '','' @ dumps_members (m # kvs)"

text \<open>
  Before a value returned by a handler is written, the framework passes it through
  \<^verbatim>\<open>jsonable_encoder\<close>. On values of the shapes above it changes one thing: in every
  object, at every depth, the members whose key starts with \<^verbatim>\<open>_sa\<close> are dropped.
\<close>

fun jsonable_encoder :: "json \<Rightarrow> json"
  and encode_items :: "json list \<Rightarrow> json list"
  and encode_members :: "(string \<times> json) list \<Rightarrow> (string \<times> json) list" where
  "jsonable_encoder JNull = JNull"
| "jsonable_encoder (JBool b) = JBool b"
| "jsonable_encoder (JInt i) = JInt i"
| "jsonable_encoder (JStr s) = JStr s"
| "jsonable_encoder (JArr vs) = JArr (encode_items vs)"
| "jsonable_encoder (JObj kvs) = JObj (encode_members kvs)"
| "encode_items [] = []"
| "encode_items (v # vs) = jsonable_encoder v # encode_items vs"
| "encode_members [] = []"
| "encode_members ((k, v) # kvs) =
     (if take 3 k = ''_sa'' then encode_members kvs
      else (k, jsonable_encoder v) # encode_members kvs)"

text \<open>
  An inbound request, as the framework sees it: the path and the query string are separate
  (the path is the decoded request path, without the query string).
\<close>

record request =
  req_method :: string
  req_path :: string
  req_query :: string
  req_headers :: "(string \<times> string) list"
  req_body :: string

text \<open>
  The body of a response is a JSON value, a text, or one of the documents that the
  framework generates (the OpenAPI schema and the pages that show it); of such a document
  only the name is modelled, not its text.
\<close>

datatype content = JsonContent json | TextContent string | Generated string

record response =
  status :: nat
  media_type :: string
  body :: content

text \<open>The bytes of a response body, as they go on the wire (\<open>None\<close> for a generated
  document).\<close>

definition body_bytes :: "response \<Rightarrow> string option" where
  "body_bytes r =
     (case body r of
        JsonContent v \<Rightarrow> Some (json_dumps v)
      | TextContent t \<Rightarrow> Some t
      | Generated n \<Rightarrow> None)"

section \<open>The outbound HTTP client\<close>

text \<open>
  What the gateway hands to \<^verbatim>\<open>httpx\<close> for one outbound call: the method, the URL as the
  code passes it (the client parses it, and encodes it for the request that it sends), the
  headers and body the code passes (the library's own default headers are not listed),
  and the timeout of the call in seconds.
\<close>

record outbound =
  out_method :: string
  out_url :: string
  out_headers :: "(string \<times> string) list"
  out_body :: string
  out_timeout :: nat

text \<open>
  The response object of \<^verbatim>\<open>httpx\<close>: status code, headers, the raw body, and the result of
  its method \<^verbatim>\<open>json()\<close> (\<open>None\<close> when decoding the body raises).
\<close>

record upstream_response =
  status_code :: nat
  headers :: "(string \<times> string) list"
  raw_content :: string
  json_result :: "json option"

text \<open>
  A call that is sent either yields a response object or raises: a connection error
  (refused, unreachable) or a timeout. The network and the upstream services are a
  parameter of the gateway: a function from the outbound call to its outcome.
\<close>

datatype transport_error = ConnectError | TimeoutException

datatype exn = Transport transport_error | JSONDecodeError | InvalidURL

type_synonym upstream = "outbound \<Rightarrow> transport_error + upstream_response"

text \<open>
  The effects of a handler are recorded as a trace: the client of the
  \<^verbatim>\<open>async with httpx.AsyncClient() as client\<close> block is opened, a call is sent, and the
  client is closed when the block is left, also when it is left by an exception.
\<close>

datatype event = ClientOpened | Sent outbound | ClientClosed

fun sent :: "event list \<Rightarrow> outbound list" where
  "sent [] = []"
| "sent (Sent c # es) = c # sent es"
| "sent (_ # es) = sent es"

text \<open>
  \<^verbatim>\<open>client.get(url)\<close> on a client made by \<^verbatim>\<open>httpx.AsyncClient()\<close>: a GET with no headers
  and no body of the caller's, under the default timeout of the library, 5 seconds.
\<close>

definition client_get :: "string \<Rightarrow> outbound" where
  "client_get url =
     \<lparr>out_method = ''GET'', out_url = url, out_headers = [], out_body = [],
      out_timeout = 5\<rparr>"

text \<open>
  Before it sends anything, the client parses the URL and raises \<^verbatim>\<open>InvalidURL\<close> when the
  URL is longer than 65536 characters or holds an ASCII character that is not printable
  (a control character below 0x20, or 0x7F). The characters of a string are counted on
  its UTF-8 bytes: every byte but the continuation bytes starts one.
\<close>

definition control_char :: "char \<Rightarrow> bool" where
  "control_char c = (of_char c < (32 :: nat) \<or> of_char c = (127 :: nat))"

definition continuation_byte :: "char \<Rightarrow> bool" where
  "continuation_byte c = (128 \<le> (of_char c :: nat) \<and> of_char c < (192 :: nat))"

definition char_count :: "string \<Rightarrow> nat" where
  "char_count s = length (filter (\<lambda>c. \<not> continuation_byte c) s)"

definition invalid_url :: "string \<Rightarrow> bool" where
  "invalid_url url = (65536 < char_count url \<or> list_ex control_char url)"

section \<open>The gateway's handlers (gateway/main.py)\<close>

definition gateway_health :: json where
  "gateway_health = JObj [(''status'', JStr ''healthy''), (''service'', JStr ''gateway'')]"

text \<open>
  The body shared by both proxy handlers:
  \<^verbatim>\<open>
  async with httpx.AsyncClient() as client:
      response = await client.get(url)
      return response.json()
  \<close>
  There is no \<^verbatim>\<open>try\<close>: an exception of the call or of the decoding leaves the handler,
  after the client has been closed.
\<close>

definition fetch_json :: "upstream \<Rightarrow> string \<Rightarrow> event list \<times> (exn + json)" where
  "fetch_json up url =
     (if invalid_url url then ([ClientOpened, ClientClosed], Inl InvalidURL)
      else
        let c = client_get url;
            trace = [ClientOpened, Sent c, ClientClosed]
        in case up c of
             Inl e \<Rightarrow> (trace, Inl (Transport e))
           | Inr r \<Rightarrow>
               (case json_result r of
                  None \<Rightarrow> (trace, Inl JSONDecodeError)
                | Some v \<Rightarrow> (trace, Inr v)))"

definition auth_proxy :: "upstream \<Rightarrow> string \<Rightarrow> event list \<times> (exn + json)" where
  "auth_proxy up path = fetch_json up (''http://auth-service:8000/'' @ path)"

definition user_proxy :: "upstream \<Rightarrow> string \<Rightarrow> event list \<times> (exn + json)" where
  "user_proxy up path = fetch_json up (''http://user-service:8000/'' @ path)"

section \<open>Routing\<close>

text \<open>
  The route decorators of the source use three shapes of path: a fixed path
  (\<^verbatim>\<open>/health\<close>), a prefix followed by a path parameter (\<^verbatim>\<open>/auth/{path:path}\<close>), and a
  prefix followed by a string parameter (\<^verbatim>\<open>/users/{user_id}\<close>). The framework compiles
  them to the regular expressions \<^verbatim>\<open>^/health$\<close>, \<^verbatim>\<open>^/auth/(?P<path>.*)$\<close> and
  \<^verbatim>\<open>^/users/(?P<user_id>[^/]+)$\<close> and matches the decoded request path with
  \<^verbatim>\<open>re.match\<close>. There \<^verbatim>\<open>.\<close> takes every character but the line feed, and \<^verbatim>\<open>$\<close> holds
  at the end of the path and also before a line feed that ends it. So a fixed path is
  matched by itself and by itself followed by one line feed; the path parameter takes
  the rest of the path up to its first line feed, which must be its end or its last
  character; the string parameter takes a non-empty rest without a slash. Matching
  yields the value of the parameter (the empty string for a fixed path).
\<close>

datatype pattern = Literal string | Rest string | Segment string

fun strip_prefix :: "string \<Rightarrow> string \<Rightarrow> string option" where
  "strip_prefix [] s = Some s"
| "strip_prefix (c # p) [] = None"
| "strip_prefix (c # p) (d # s) = (if c = d then strip_prefix p s else None)"

fun match_path :: "pattern \<Rightarrow> string \<Rightarrow> string option" where
  "match_path (Literal p) s = (if s = p \<or> s = p @ [CHR 0x0A] then Some [] else None)"
| "match_path (Rest p) s =
     (case strip_prefix p s of
        None \<Rightarrow> None
      | Some r \<Rightarrow>
          (let taken = takeWhile (\<lambda>c. c \<noteq> CHR 0x0A) r
           in if r = taken \<or> r = taken @ [CHR 0x0A] then Some taken else None))"
| "match_path (Segment p) s =
     (case strip_prefix p s of
        None \<Rightarrow> None
      | Some r \<Rightarrow> if r \<noteq> [] \<and> CHR ''/'' \<notin> set r then Some r else None)"

text \<open>
  A route: its methods, its path, and its handler. The handler of a route declared by a
  decorator of the source gets the environment of the application and the value of the
  path parameter, and returns a value or raises. The handler of a route that the
  framework adds returns a finished response.
\<close>

datatype 'e handler =
    Endpoint "'e \<Rightarrow> string \<Rightarrow> event list \<times> (exn + json)"
  | Page response

record 'e route =
  rt_methods :: "string list"
  rt_pattern :: pattern
  rt_handler :: "'e handler"

text \<open>
  \<^verbatim>\<open>FastAPI(title=...)\<close> adds four routes to the application before the decorators add
  theirs: the OpenAPI schema and three pages of documentation, each for GET and HEAD.
\<close>

definition framework_route :: "string \<Rightarrow> string \<Rightarrow> string \<Rightarrow> 'e route" where
  "framework_route path media name =
     \<lparr>rt_methods = [''GET'', ''HEAD''], rt_pattern = Literal path,
      rt_handler = Page \<lparr>status = 200, media_type = media, body = Generated name\<rparr>\<rparr>"

definition fastapi_routes :: "'e route list \<Rightarrow> 'e route list" where
  "fastapi_routes declared =
     [framework_route ''/openapi.json'' ''application/json'' ''openapi.json'',
      framework_route ''/docs'' ''text/html'' ''swagger-ui'',
      framework_route ''/docs/oauth2-redirect'' ''text/html'' ''swagger-ui-oauth2-redirect'',
      framework_route ''/redoc'' ''text/html'' ''redoc'']
     @ declared"

text \<open>
  The router tries the routes in their order. The first route whose path and method both
  match handles the request. Otherwise, when the path of some route matches, the answer
  is 405. Otherwise, unless the path is \<^verbatim>\<open>/\<close>, the router adds a slash to the path, or
  strips all its trailing slashes when it has one, and answers with a 307 redirect when
  the path of some route matches the result. Otherwise the answer is 404. A value
  returned by a handler is encoded and sent as a JSON response with status 200; an
  exception that leaves a handler is answered by the framework's generic 500.
\<close>

datatype route_match = NoMatch | PartialMatch | FullMatch string

definition matches :: "'e route \<Rightarrow> request \<Rightarrow> route_match" where
  "matches rt rq =
     (case match_path (rt_pattern rt) (req_path rq) of
        None \<Rightarrow> NoMatch
      | Some p \<Rightarrow> if req_method rq \<in> set (rt_methods rt) then FullMatch p else PartialMatch)"

fun first_full :: "'e route list \<Rightarrow> request \<Rightarrow> ('e route \<times> string) option" where
  "first_full [] rq = None"
| "first_full (rt # rts) rq =
     (case matches rt rq of
        FullMatch p \<Rightarrow> Some (rt, p)
      | _ \<Rightarrow> first_full rts rq)"

definition toggle_slash :: "string \<Rightarrow> string" where
  "toggle_slash s =
     (if s \<noteq> [] \<and> last s = CHR ''/''
      then rev (dropWhile (\<lambda>c. c = CHR ''/'') (rev s))
      else s @ ''/'')"

definition redirect_slashes :: "'e route list \<Rightarrow> request \<Rightarrow> bool" where
  "redirect_slashes rts rq =
     (req_path rq \<noteq> ''/'' \<and>
      list_ex (\<lambda>rt. match_path (rt_pattern rt) (toggle_slash (req_path rq)) \<noteq> None) rts)"

definition json_response :: "nat \<Rightarrow> json \<Rightarrow> response" where
  "json_response code v =
     \<lparr>status = code, media_type = ''application/json'', body = JsonContent v\<rparr>"

definition not_found :: response where
  "not_found = json_response 404 (JObj [(''detail'', JStr ''Not Found'')])"

definition method_not_allowed :: response where
  "method_not_allowed = json_response 405 (JObj [(''detail'', JStr ''Method Not Allowed'')])"

definition redirect_response :: response where
  "redirect_response = \<lparr>status = 307, media_type = [], body = TextContent []\<rparr>"

definition internal_server_error :: response where
  "internal_server_error =
     \<lparr>status = 500, media_type = ''text/plain'', body = TextContent ''Internal Server Error''\<rparr>"

definition respond :: "event list \<times> (exn + json) \<Rightarrow> event list \<times> response" where
  "respond res =
     (case res of
        (evs, Inr v) \<Rightarrow> (evs, json_response 200 (jsonable_encoder v))
      | (evs, Inl e) \<Rightarrow> (evs, internal_server_error))"

fun handle :: "'e handler \<Rightarrow> 'e \<Rightarrow> string \<Rightarrow> event list \<times> response" where
  "handle (Endpoint f) env p = respond (f env p)"
| "handle (Page r) env p = ([], r)"

definition serve :: "'e route list \<Rightarrow> 'e \<Rightarrow> request \<Rightarrow> event list \<times> response" where
  "serve rts env rq =
     (case first_full rts rq of
        Some (rt, p) \<Rightarrow> handle (rt_handler rt) env p
      | None \<Rightarrow>
          ([], if list_ex (\<lambda>rt. matches rt rq = PartialMatch) rts then method_not_allowed
               else if redirect_slashes rts rq then redirect_response
               else not_found))"

section \<open>The gateway application\<close>

definition gateway_routes :: "upstream route list" where
  "gateway_routes =
     fastapi_routes
     [\<lparr>rt_methods = [''GET''], rt_pattern = Literal ''/health'',
        rt_handler = Endpoint (\<lambda>up p. ([], Inr gateway_health))\<rparr>,
      \<lparr>rt_methods = [''GET''], rt_pattern = Rest ''/auth/'',
        rt_handler = Endpoint auth_proxy\<rparr>,
      \<lparr>rt_methods = [''GET''], rt_pattern = Rest ''/users/'',
        rt_handler = Endpoint user_proxy\<rparr>]"

definition gateway_app :: "upstream \<Rightarrow> request \<Rightarrow> event list \<times> response" where
  "gateway_app up rq = serve gateway_routes up rq"

section \<open>The auth service (auth-service/main.py)\<close>

definition auth_health :: json where
  "auth_health = JObj [(''status'', JStr ''healthy''), (''service'', JStr ''auth'')]"

definition login :: json where
  "login = JObj [(''token'', JStr ''mock-jwt-token'')]"

definition validate :: json where
  "validate = JObj [(''valid'', JBool True), (''user_id'', JStr ''123'')]"

definition auth_routes :: "unit route list" where
  "auth_routes =
     fastapi_routes
     [\<lparr>rt_methods = [''GET''], rt_pattern = Literal ''/health'',
        rt_handler = Endpoint (\<lambda>u p. ([], Inr auth_health))\<rparr>,
      \<lparr>rt_methods = [''POST''], rt_pattern = Literal ''/login'',
        rt_handler = Endpoint (\<lambda>u p. ([], Inr login))\<rparr>,
      \<lparr>rt_methods = [''POST''], rt_pattern = Literal ''/validate'',
        rt_handler = Endpoint (\<lambda>u p. ([], Inr validate))\<rparr>]"

definition auth_app :: "request \<Rightarrow> response" where
  "auth_app rq = snd (serve auth_routes () rq)"

section \<open>The user service (user-service/main.py)\<close>

definition user_health :: json where
  "user_health = JObj [(''status'', JStr ''healthy''), (''service'', JStr ''user'')]"

definition get_user :: "string \<Rightarrow> json" where
  "get_user user_id =
     JObj [(''id'', JStr user_id), (''name'', JStr ''John Doe''),
           (''email'', JStr ''john@example.com'')]"

definition create_user :: json where
  "create_user = JObj [(''id'', JStr ''456''), (''message'', JStr ''User created'')]"

definition user_routes :: "unit route list" where
  "user_routes =
     fastapi_routes
     [\<lparr>rt_methods = [''GET''], rt_pattern = Literal ''/health'',
        rt_handler = Endpoint (\<lambda>u p. ([], Inr user_health))\<rparr>,
      \<lparr>rt_methods = [''GET''], rt_pattern = Segment ''/users/'',
        rt_handler = Endpoint (\<lambda>u p. ([], Inr (get_user p)))\<rparr>,
      \<lparr>rt_methods = [''POST''], rt_pattern = Literal ''/users'',
        rt_handler = Endpoint (\<lambda>u p. ([], Inr create_user))\<rparr>]"

definition user_app :: "request \<Rightarrow> response" where
  "user_app rq = snd (serve user_routes () rq)"

section \<open>Sample requests and upstreams\<close>

text \<open>
  For the concrete instances: a GET request for a path, with no query string, headers or
  body; an upstream that answers every call with the same response, and one that fails
  every call with the same error; and some answers of an upstream.
\<close>

definition http_get :: "string \<Rightarrow> request" where
  "http_get p =
     \<lparr>req_method = ''GET'', req_path = p, req_query = [], req_headers = [], req_body = []\<rparr>"

definition replying :: "upstream_response \<Rightarrow> upstream" where
  "replying r c = Inr r"

definition failing :: "transport_error \<Rightarrow> upstream" where
  "failing e c = Inl e"

definition empty_object_answer :: upstream_response where
  "empty_object_answer =
     \<lparr>status_code = 200, headers = [(''content-type'', ''application/json'')],
      raw_content = ''{}'', json_result = Some (JObj [])\<rparr>"

definition john_doe_answer :: upstream_response where
  "john_doe_answer =
     \<lparr>status_code = 200, headers = [(''content-type'', ''application/json'')],
      raw_content = ''{\"id\":\"123\",\"name\":\"John Doe\"}'',
      json_result = Some (JObj [(''id'', JStr ''123''), (''name'', JStr ''John Doe'')])\<rparr>"

definition spaced_not_found_answer :: upstream_response where
  "spaced_not_found_answer =
     \<lparr>status_code = 404, headers = [(''content-type'', ''application/json'')],
      raw_content = ''{\"detail\": \"Not Found\"}'',
      json_result = Some (JObj [(''detail'', JStr ''Not Found'')])\<rparr>"

definition sa_member_answer :: upstream_response where
  "sa_member_answer =
     \<lparr>status_code = 200, headers = [(''content-type'', ''application/json'')],
      raw_content = ''{\"_sa\":1,\"a\":2}'',
      json_result = Some (JObj [(''_sa'', JInt 1), (''a'', JInt 2)])\<rparr>"

section \<open>Lemmas on routing and on the proxy handlers\<close>

lemma strip_prefix_Some: "strip_prefix p s = Some x \<Longrightarrow> s = p @ x"
proof (induction p s rule: strip_prefix.induct)
  case (1 s)
  then show ?case by simp
next
  case (2 c p)
  then show ?case by simp
next
  case (3 c p d s)
  then show ?case by (simp split: if_splits)
qed

lemma strip_prefix_append: "strip_prefix p (p @ x) = Some x"
  by (induction p) simp_all

lemma line_feed_is_control: "control_char (CHR 0x0A)"
  by (simp add: control_char_def)

lemma no_control_takeWhile:
  "\<not> list_ex control_char x \<Longrightarrow> takeWhile (\<lambda>c. c \<noteq> CHR 0x0A) x = x"
proof (induction x)
  case Nil
  then show ?case by simp
next
  case (Cons a x)
  then have "\<not> control_char a" and rest: "\<not> list_ex control_char x"
    by simp_all
  then have "a \<noteq> CHR 0x0A"
    using line_feed_is_control by blast
  then show ?case
    using Cons.IH [OF rest] by simp
qed

lemma valid_url_no_control:
  "\<not> invalid_url (b @ x) \<Longrightarrow> \<not> list_ex control_char x"
  by (simp add: invalid_url_def list_ex_iff)

lemma rest_match_valid:
  assumes "\<not> invalid_url (b @ x)"
  shows "match_path (Rest p) (p @ x) = Some x"
proof -
  have "\<not> list_ex control_char x"
    using assms by (rule valid_url_no_control)
  then have tw: "takeWhile (\<lambda>c. c \<noteq> CHR 0x0A) x = x"
    by (rule no_control_takeWhile)
  show ?thesis
    by (simp add: strip_prefix_append Let_def tw)
qed

lemma rest_match_path:
  "match_path (Rest p) s = Some q \<Longrightarrow> \<exists>r. s = p @ r"
  by (auto split: option.splits dest: strip_prefix_Some)


lemma rest_match_shape:
  assumes "match_path (Rest p) s = Some q"
  shows "s = p @ q \<or> s = p @ q @ [CHR 0x0A]"
proof -
  obtain r where r: "strip_prefix p s = Some r"
    using assms by (cases "strip_prefix p s") simp_all
  have s: "s = p @ r"
    using r by (rule strip_prefix_Some)
  have "r = q \<or> r = q @ [CHR 0x0A]"
    using assms r by (simp add: Let_def split: if_splits)
  then show ?thesis
    using s by auto
qed

lemma gateway_auth_routed:
  assumes "req_method rq = ''GET''"
    and "match_path (Rest ''/auth/'') (req_path rq) = Some p"
  shows "gateway_app up rq = respond (auth_proxy up p)"
proof -
  obtain r where r: "req_path rq = ''/auth/'' @ r"
    using rest_match_path [OF assms(2)] by blast
  have m: "match_path (Rest ''/auth/'') (''/auth/'' @ r) = Some p"
    using assms(2) r by simp
  show ?thesis
    using assms(1) m
    by (simp add: gateway_app_def serve_def gateway_routes_def fastapi_routes_def framework_route_def
        matches_def r del: match_path.simps(2))
qed

lemma gateway_users_routed:
  assumes "req_method rq = ''GET''"
    and "match_path (Rest ''/users/'') (req_path rq) = Some p"
  shows "gateway_app up rq = respond (user_proxy up p)"
proof -
  obtain r where r: "req_path rq = ''/users/'' @ r"
    using rest_match_path [OF assms(2)] by blast
  have m: "match_path (Rest ''/users/'') (''/users/'' @ r) = Some p"
    using assms(2) r by simp
  have n: "match_path (Rest ''/auth/'') (''/users/'' @ r) = None"
    by simp
  show ?thesis
    using assms(1) m n
    by (simp add: gateway_app_def serve_def gateway_routes_def fastapi_routes_def framework_route_def
        matches_def r del: match_path.simps(2))
qed



lemma fetch_json_sent:
  "sent (fst (fetch_json up url)) = (if invalid_url url then [] else [client_get url])"
  by (simp add: fetch_json_def Let_def split: sum.splits option.splits)

lemma respond_fst: "fst (respond res) = fst res"
  by (cases res) (simp add: respond_def split: sum.splits)


lemma matches_query: "matches rt (rq\<lparr>req_query := q\<rparr>) = matches rt rq"
  by (simp add: matches_def split: option.splits)

lemma first_full_query: "first_full rts (rq\<lparr>req_query := q\<rparr>) = first_full rts rq"
  by (induction rts) (simp_all add: matches_query split: route_match.splits)

lemma serve_query: "serve rts env (rq\<lparr>req_query := q\<rparr>) = serve rts env rq"
  by (simp add: serve_def first_full_query matches_query redirect_slashes_def)

lemma one_route_at_most:
  "length (filter (\<lambda>rt. match_path (rt_pattern rt) s \<noteq> None) gateway_routes) \<le> 1"
  by (auto simp add: gateway_routes_def fastapi_routes_def framework_route_def
      split: option.splits dest!: strip_prefix_Some)

lemma unmatched_answer:
  "list_all (\<lambda>rt. match_path (rt_pattern rt) (req_path rq) = None) gateway_routes \<Longrightarrow>
   gateway_app up rq = ([], if redirect_slashes gateway_routes rq then redirect_response else not_found)"
  by (simp add: gateway_app_def serve_def gateway_routes_def fastapi_routes_def
      framework_route_def matches_def del: match_path.simps)

lemma other_method_not_forwarded: "req_method rq \<noteq> ''GET'' \<Longrightarrow> fst (gateway_app up rq) = []"
  by (simp add: gateway_app_def serve_def gateway_routes_def fastapi_routes_def
      framework_route_def matches_def split: option.splits del: match_path.simps)

lemma other_method_auth_405:
  assumes "req_method rq \<noteq> ''GET''"
    and "match_path (Rest ''/auth/'') (req_path rq) \<noteq> None"
  shows "gateway_app up rq = ([], method_not_allowed)"
proof -
  obtain p where p: "match_path (Rest ''/auth/'') (req_path rq) = Some p"
    using assms(2) by blast
  obtain r where r: "req_path rq = ''/auth/'' @ r"
    using rest_match_path [OF p] by blast
  have m: "match_path (Rest ''/auth/'') (''/auth/'' @ r) = Some p"
    using p r by simp
  have n: "match_path (Rest ''/users/'') (''/auth/'' @ r) = None"
    by simp
  show ?thesis
    using assms(1) m n
    by (simp add: gateway_app_def serve_def gateway_routes_def fastapi_routes_def
        framework_route_def matches_def r del: match_path.simps(2))
qed


lemma other_method_users_405:
  assumes "req_method rq \<noteq> ''GET''"
    and "match_path (Rest ''/users/'') (req_path rq) \<noteq> None"
  shows "gateway_app up rq = ([], method_not_allowed)"
proof -
  obtain p where p: "match_path (Rest ''/users/'') (req_path rq) = Some p"
    using assms(2) by blast
  obtain r where r: "req_path rq = ''/users/'' @ r"
    using rest_match_path [OF p] by blast
  have m: "match_path (Rest ''/users/'') (''/users/'' @ r) = Some p"
    using p r by simp
  have n: "match_path (Rest ''/auth/'') (''/users/'' @ r) = None"
    by simp
  show ?thesis
    using assms(1) m n
    by (simp add: gateway_app_def serve_def gateway_routes_def fastapi_routes_def
        framework_route_def matches_def r del: match_path.simps(2))
qed

text \<open>A GET request to /auth/\<open>x\<close> or /users/\<open>x\<close> whose upstream URL the client accepts is
  handled by the proxy handler of its route, which gets \<open>x\<close>.\<close>

lemma gateway_auth:
  assumes "\<not> invalid_url (''http://auth-service:8000/'' @ x)"
  shows "gateway_app up \<lparr>req_method = ''GET'', req_path = ''/auth/'' @ x, req_query = q,
                          req_headers = h, req_body = b\<rparr>
         = respond (auth_proxy up x)"
proof (rule gateway_auth_routed)
  show "req_method \<lparr>req_method = ''GET'', req_path = ''/auth/'' @ x, req_query = q,
                     req_headers = h, req_body = b\<rparr> = ''GET''"
    by simp
  show "match_path (Rest ''/auth/'')
          (req_path \<lparr>req_method = ''GET'', req_path = ''/auth/'' @ x, req_query = q,
                      req_headers = h, req_body = b\<rparr>) = Some x"
    using rest_match_valid [OF assms, of "''/auth/''"] by (simp only: request.select_convs)
qed

lemma gateway_users:
  assumes "\<not> invalid_url (''http://user-service:8000/'' @ x)"
  shows "gateway_app up \<lparr>req_method = ''GET'', req_path = ''/users/'' @ x, req_query = q,
                          req_headers = h, req_body = b\<rparr>
         = respond (user_proxy up x)"
proof (rule gateway_users_routed)
  show "req_method \<lparr>req_method = ''GET'', req_path = ''/users/'' @ x, req_query = q,
                     req_headers = h, req_body = b\<rparr> = ''GET''"
    by simp
  show "match_path (Rest ''/users/'')
          (req_path \<lparr>req_method = ''GET'', req_path = ''/users/'' @ x, req_query = q,
                      req_headers = h, req_body = b\<rparr>) = Some x"
    using rest_match_valid [OF assms, of "''/users/''"] by (simp only: request.select_convs)
qed

lemma fetch_json_error:
  "\<not> invalid_url url \<Longrightarrow> up (client_get url) = Inl e \<Longrightarrow>
   fetch_json up url = ([ClientOpened, Sent (client_get url), ClientClosed], Inl (Transport e))"
  by (simp add: fetch_json_def Let_def)

lemma fetch_json_value:
  "\<not> invalid_url url \<Longrightarrow> up (client_get url) = Inr r \<Longrightarrow> json_result r = Some v \<Longrightarrow>
   fetch_json up url = ([ClientOpened, Sent (client_get url), ClientClosed], Inr v)"
  by (simp add: fetch_json_def Let_def)



section \<open>The claims\<close>

subsection \<open>C1: the prefix is stripped, the remainder is appended\<close>




subsection \<open>C2: what is relayed of an upstream response\<close>

text \<open>C2 says that the status code and the bytes of the body of the upstream response
  are relayed. The handlers return \<^verbatim>\<open>response.json()\<close>, and the framework encodes a
  returned value and sends it with status 200. As amended: for every routed GET request
  whose upstream URL the client accepts and every upstream response whose body decodes as
  a JSON value (null, booleans, integers, strings of well-formed text, arrays, objects),
  the gateway answers with status 200, whatever the status of the upstream, with content
  type application/json, and its body is the compact encoding of the decoded value
  without the object members whose key starts with \<^verbatim>\<open>_sa\<close>: not the bytes of the
  upstream body.\<close>

theorem relays_decoded_json_with_200:
  "(\<not> invalid_url (''http://auth-service:8000/'' @ x)
      \<and> up (client_get (''http://auth-service:8000/'' @ x)) = Inr r
      \<and> json_result r = Some v \<longrightarrow>
      snd (gateway_app up \<lparr>req_method = ''GET'', req_path = ''/auth/'' @ x, req_query = q,
                             req_headers = h, req_body = b\<rparr>)
        = \<lparr>status = 200, media_type = ''application/json'',
           body = JsonContent (jsonable_encoder v)\<rparr>
      \<and> body_bytes (snd (gateway_app up
            \<lparr>req_method = ''GET'', req_path = ''/auth/'' @ x, req_query = q,
              req_headers = h, req_body = b\<rparr>)) = Some (json_dumps (jsonable_encoder v)))
 \<and> (\<not> invalid_url (''http://user-service:8000/'' @ x)
      \<and> up (client_get (''http://user-service:8000/'' @ x)) = Inr r
      \<and> json_result r = Some v \<longrightarrow>
      snd (gateway_app up \<lparr>req_method = ''GET'', req_path = ''/users/'' @ x, req_query = q,
                             req_headers = h, req_body = b\<rparr>)
        = \<lparr>status = 200, media_type = ''application/json'',
           body = JsonContent (jsonable_encoder v)\<rparr>
      \<and> body_bytes (snd (gateway_app up
            \<lparr>req_method = ''GET'', req_path = ''/users/'' @ x, req_query = q,
              req_headers = h, req_body = b\<rparr>)) = Some (json_dumps (jsonable_encoder v)))"
proof (intro conjI impI; elim conjE)
  assume v: "\<not> invalid_url (''http://auth-service:8000/'' @ x)"
    and u: "up (client_get (''http://auth-service:8000/'' @ x)) = Inr r"
    and j: "json_result r = Some v"
  have g: "gateway_app up \<lparr>req_method = ''GET'', req_path = ''/auth/'' @ x, req_query = q,
                             req_headers = h, req_body = b\<rparr>
           = ([ClientOpened, Sent (client_get (''http://auth-service:8000/'' @ x)), ClientClosed],
              json_response 200 (jsonable_encoder v))"
    unfolding gateway_auth [OF v] auth_proxy_def fetch_json_value [where up = up, OF v u j]
    by (simp add: respond_def)
  show "snd (gateway_app up \<lparr>req_method = ''GET'', req_path = ''/auth/'' @ x, req_query = q,
                             req_headers = h, req_body = b\<rparr>)
        = \<lparr>status = 200, media_type = ''application/json'',
           body = JsonContent (jsonable_encoder v)\<rparr>"
    unfolding g by (simp add: json_response_def)
  show "body_bytes (snd (gateway_app up
            \<lparr>req_method = ''GET'', req_path = ''/auth/'' @ x, req_query = q,
              req_headers = h, req_body = b\<rparr>)) = Some (json_dumps (jsonable_encoder v))"
    unfolding g by (simp add: json_response_def body_bytes_def)
next
  assume v: "\<not> invalid_url (''http://user-service:8000/'' @ x)"
    and u: "up (client_get (''http://user-service:8000/'' @ x)) = Inr r"
    and j: "json_result r = Some v"
  have g: "gateway_app up \<lparr>req_method = ''GET'', req_path = ''/users/'' @ x, req_query = q,
                             req_headers = h, req_body = b\<rparr>
           = ([ClientOpened, Sent (client_get (''http://user-service:8000/'' @ x)), ClientClosed],
              json_response 200 (jsonable_encoder v))"
    unfolding gateway_users [OF v] user_proxy_def fetch_json_value [where up = up, OF v u j]
    by (simp add: respond_def)
  show "snd (gateway_app up \<lparr>req_method = ''GET'', req_path = ''/users/'' @ x, req_query = q,
                             req_headers = h, req_body = b\<rparr>)
        = \<lparr>status = 200, media_type = ''application/json'',
           body = JsonContent (jsonable_encoder v)\<rparr>"
    unfolding g by (simp add: json_response_def)
  show "body_bytes (snd (gateway_app up
            \<lparr>req_method = ''GET'', req_path = ''/users/'' @ x, req_query = q,
              req_headers = h, req_body = b\<rparr>)) = Some (json_dumps (jsonable_encoder v))"
    unfolding g by (simp add: json_response_def body_bytes_def)
qed

text \<open>The scenario of the specification: the upstream answers GET /users/123 with status
  200 and the body {"id":"123","name":"John Doe"}.\<close>

theorem relays_decoded_json_with_200_witness:
  "snd (gateway_app (replying john_doe_answer) (http_get ''/users/123''))
     = \<lparr>status = 200, media_type = ''application/json'',
        body = JsonContent (JObj [(''id'', JStr ''123''), (''name'', JStr ''John Doe'')])\<rparr>
   \<and> body_bytes (snd (gateway_app (replying john_doe_answer) (http_get ''/users/123'')))
     = Some ''{\"id\":\"123\",\"name\":\"John Doe\"}''"
proof -
  have "\<not> invalid_url (''http://user-service:8000/'' @ ''123'')"
    by (simp add: invalid_url_def char_count_def continuation_byte_def control_char_def)
  then show ?thesis
    using relays_decoded_json_with_200 [of "''123''" "replying john_doe_answer"
        john_doe_answer "JObj [(''id'', JStr ''123''), (''name'', JStr ''John Doe'')]"
        "[]" "[]" "[]"]
    by (simp add: replying_def john_doe_answer_def http_get_def body_bytes_def
        encode_basestring_def escape_char_def)
qed

text \<open>An upstream that answers with status 404 and the body {"detail": "Not Found"}
  (a space after the colon) is answered with another status and other bytes; and an
  upstream that answers with the body {"_sa":1,"a":2} is answered with other bytes.\<close>

theorem relay_status_and_bytes_counterexample:
  "status (snd (gateway_app (replying spaced_not_found_answer) (http_get ''/users/123'')))
     \<noteq> status_code spaced_not_found_answer
   \<and> body_bytes (snd (gateway_app (replying spaced_not_found_answer) (http_get ''/users/123'')))
     \<noteq> Some (raw_content spaced_not_found_answer)
   \<and> body_bytes (snd (gateway_app (replying sa_member_answer) (http_get ''/users/123'')))
     \<noteq> Some (raw_content sa_member_answer)"
  by (simp add: gateway_app_def serve_def gateway_routes_def fastapi_routes_def
      framework_route_def matches_def user_proxy_def fetch_json_def replying_def
      respond_def json_response_def Let_def http_get_def spaced_not_found_answer_def
      sa_member_answer_def body_bytes_def encode_basestring_def escape_char_def
      invalid_url_def char_count_def continuation_byte_def control_char_def)

subsection \<open>C3: a refused connection\<close>

text \<open>C3 says that a refused or unreachable upstream is answered with a 502 result
  UpstreamUnavailable and that no transport fault is propagated. The handlers have no
  exception handling. As amended: when the outbound call of a routed GET request fails
  with a connection error, the handler closes its client and the connection error leaves
  the handler uncaught; the caller gets the generic 500 answer of the framework.\<close>

theorem connect_error_leaves_handler:
  "(\<not> invalid_url (''http://auth-service:8000/'' @ x)
      \<and> up (client_get (''http://auth-service:8000/'' @ x)) = Inl ConnectError \<longrightarrow>
      auth_proxy up x
        = ([ClientOpened, Sent (client_get (''http://auth-service:8000/'' @ x)), ClientClosed],
           Inl (Transport ConnectError))
      \<and> snd (gateway_app up \<lparr>req_method = ''GET'', req_path = ''/auth/'' @ x, req_query = q,
                               req_headers = h, req_body = b\<rparr>)
        = \<lparr>status = 500, media_type = ''text/plain'',
           body = TextContent ''Internal Server Error''\<rparr>)
 \<and> (\<not> invalid_url (''http://user-service:8000/'' @ x)
      \<and> up (client_get (''http://user-service:8000/'' @ x)) = Inl ConnectError \<longrightarrow>
      user_proxy up x
        = ([ClientOpened, Sent (client_get (''http://user-service:8000/'' @ x)), ClientClosed],
           Inl (Transport ConnectError))
      \<and> snd (gateway_app up \<lparr>req_method = ''GET'', req_path = ''/users/'' @ x, req_query = q,
                               req_headers = h, req_body = b\<rparr>)
        = \<lparr>status = 500, media_type = ''text/plain'',
           body = TextContent ''Internal Server Error''\<rparr>)"
proof (intro conjI impI; elim conjE)
  assume v: "\<not> invalid_url (''http://auth-service:8000/'' @ x)"
    and u: "up (client_get (''http://auth-service:8000/'' @ x)) = Inl ConnectError"
  show "auth_proxy up x
        = ([ClientOpened, Sent (client_get (''http://auth-service:8000/'' @ x)), ClientClosed],
           Inl (Transport ConnectError))"
    unfolding auth_proxy_def by (rule fetch_json_error [where up = up, OF v u])
  show "snd (gateway_app up \<lparr>req_method = ''GET'', req_path = ''/auth/'' @ x, req_query = q,
                               req_headers = h, req_body = b\<rparr>)
        = \<lparr>status = 500, media_type = ''text/plain'',
           body = TextContent ''Internal Server Error''\<rparr>"
    unfolding gateway_auth [OF v] auth_proxy_def fetch_json_error [where up = up, OF v u]
    by (simp add: respond_def internal_server_error_def)
next
  assume v: "\<not> invalid_url (''http://user-service:8000/'' @ x)"
    and u: "up (client_get (''http://user-service:8000/'' @ x)) = Inl ConnectError"
  show "user_proxy up x
        = ([ClientOpened, Sent (client_get (''http://user-service:8000/'' @ x)), ClientClosed],
           Inl (Transport ConnectError))"
    unfolding user_proxy_def by (rule fetch_json_error [where up = up, OF v u])
  show "snd (gateway_app up \<lparr>req_method = ''GET'', req_path = ''/users/'' @ x, req_query = q,
                               req_headers = h, req_body = b\<rparr>)
        = \<lparr>status = 500, media_type = ''text/plain'',
           body = TextContent ''Internal Server Error''\<rparr>"
    unfolding gateway_users [OF v] user_proxy_def fetch_json_error [where up = up, OF v u]
    by (simp add: respond_def internal_server_error_def)
qed

theorem connect_error_leaves_handler_witness:
  "auth_proxy (failing ConnectError) ''health''
     = ([ClientOpened, Sent (client_get ''http://auth-service:8000/health''), ClientClosed],
        Inl (Transport ConnectError))
   \<and> snd (gateway_app (failing ConnectError) (http_get ''/auth/health''))
     = \<lparr>status = 500, media_type = ''text/plain'',
        body = TextContent ''Internal Server Error''\<rparr>"
proof -
  have "\<not> invalid_url (''http://auth-service:8000/'' @ ''health'')"
    by (simp add: invalid_url_def char_count_def continuation_byte_def control_char_def)
  then show ?thesis
    using connect_error_leaves_handler [of "''health''" "failing ConnectError" "[]" "[]" "[]"]
    by (simp add: failing_def http_get_def)
qed

theorem connect_error_502_counterexample:
  "status (snd (gateway_app (failing ConnectError) (http_get ''/auth/health''))) \<noteq> 502
   \<and> snd (auth_proxy (failing ConnectError) ''health'') = Inl (Transport ConnectError)"
  by (simp add: gateway_app_def serve_def gateway_routes_def fastapi_routes_def
      framework_route_def matches_def auth_proxy_def fetch_json_def failing_def
      respond_def internal_server_error_def Let_def http_get_def
      invalid_url_def char_count_def continuation_byte_def control_char_def)

subsection \<open>C4: a timeout\<close>




subsection \<open>C5: unmatched requests\<close>

text \<open>C5 says that a request whose path matches no configured route is answered with
  404 without any outbound call, and that a request matches at most one route. The
  application also has the four routes that the framework adds (/openapi.json, /docs,
  /docs/oauth2-redirect, /redoc), which answer with status 200, and its router redirects
  before it answers 404. As amended: a request whose path matches none of the seven
  routes of the gateway, the three declared and the four added, causes no outbound call;
  it is answered with a 307 redirect when its path, with a slash added or with its
  trailing slashes removed, matches one of the routes, and with 404 otherwise; and the
  path of a request matches at most one of the seven routes.\<close>

theorem unmatched_is_not_found:
  "(list_all (\<lambda>rt. match_path (rt_pattern rt) (req_path rq) = None) gateway_routes \<longrightarrow>
      gateway_app up rq
        = ([], if redirect_slashes gateway_routes rq
               then \<lparr>status = 307, media_type = [], body = TextContent []\<rparr>
               else \<lparr>status = 404, media_type = ''application/json'',
                     body = JsonContent (JObj [(''detail'', JStr ''Not Found'')])\<rparr>))
   \<and> length (filter (\<lambda>rt. match_path (rt_pattern rt) (req_path rq) \<noteq> None) gateway_routes)
       \<le> 1"
proof (intro conjI impI)
  assume a: "list_all (\<lambda>rt. match_path (rt_pattern rt) (req_path rq) = None) gateway_routes"
  show "gateway_app up rq
        = ([], if redirect_slashes gateway_routes rq
               then \<lparr>status = 307, media_type = [], body = TextContent []\<rparr>
               else \<lparr>status = 404, media_type = ''application/json'',
                     body = JsonContent (JObj [(''detail'', JStr ''Not Found'')])\<rparr>)"
    using unmatched_answer [OF a, of up]
    by (simp add: redirect_response_def not_found_def json_response_def)
next
  show "length (filter (\<lambda>rt. match_path (rt_pattern rt) (req_path rq) \<noteq> None) gateway_routes)
       \<le> 1"
    by (rule one_route_at_most)
qed

text \<open>The scenario of the specification, GET /unknown/path, and a path that is
  redirected, /health/.\<close>

theorem unmatched_is_not_found_witness:
  "gateway_app (replying empty_object_answer) (http_get ''/unknown/path'')
     = ([], \<lparr>status = 404, media_type = ''application/json'',
             body = JsonContent (JObj [(''detail'', JStr ''Not Found'')])\<rparr>)
   \<and> gateway_app (replying empty_object_answer) (http_get ''/health/'')
     = ([], \<lparr>status = 307, media_type = [], body = TextContent []\<rparr>)"
  using unmatched_is_not_found [of "http_get ''/unknown/path''" "replying empty_object_answer"]
    unmatched_is_not_found [of "http_get ''/health/''" "replying empty_object_answer"]
  by (simp add: gateway_routes_def fastapi_routes_def framework_route_def http_get_def
      redirect_slashes_def toggle_slash_def)

text \<open>Two requests that no declared route matches and that are not answered with 404:
  GET /docs gets the documentation page, GET /auth is redirected.\<close>

theorem unmatched_counterexample:
  "list_all (\<lambda>p. match_path p ''/docs'' = None)
      [Literal ''/health'', Rest ''/auth/'', Rest ''/users/'']
   \<and> status (snd (gateway_app (replying empty_object_answer) (http_get ''/docs''))) \<noteq> 404
   \<and> list_all (\<lambda>p. match_path p ''/auth'' = None)
      [Literal ''/health'', Rest ''/auth/'', Rest ''/users/'']
   \<and> status (snd (gateway_app (replying empty_object_answer) (http_get ''/auth''))) \<noteq> 404"
  by (simp add: gateway_app_def serve_def gateway_routes_def fastapi_routes_def
      framework_route_def matches_def http_get_def redirect_slashes_def toggle_slash_def
      redirect_response_def)

subsection \<open>C6: what is forwarded of a request\<close>

text \<open>C6 says that the method, the body and the relevant headers of a routed request are
  forwarded unchanged, a POST as a POST with the same body. The gateway declares GET
  routes only and calls \<^verbatim>\<open>client.get(url)\<close> with the URL alone. As amended: a GET
  request that the /auth or the /users route matches and whose upstream URL the client
  accepts is forwarded as one GET request to that URL, with none of the headers and
  nothing of the body of the inbound request; a request with any other method is never
  forwarded, and it is answered with 405 when one of these two routes matches its
  path.\<close>

theorem forwards_get_with_url_only:
  "(req_method rq = ''GET'' \<and> match_path (Rest ''/auth/'') (req_path rq) = Some p
      \<and> \<not> invalid_url (''http://auth-service:8000/'' @ p) \<longrightarrow>
      sent (fst (gateway_app up rq))
        = [\<lparr>out_method = ''GET'', out_url = ''http://auth-service:8000/'' @ p,
            out_headers = [], out_body = [], out_timeout = 5\<rparr>])
   \<and> (req_method rq = ''GET'' \<and> match_path (Rest ''/users/'') (req_path rq) = Some p
      \<and> \<not> invalid_url (''http://user-service:8000/'' @ p) \<longrightarrow>
      sent (fst (gateway_app up rq))
        = [\<lparr>out_method = ''GET'', out_url = ''http://user-service:8000/'' @ p,
            out_headers = [], out_body = [], out_timeout = 5\<rparr>])
   \<and> (req_method rq \<noteq> ''GET'' \<longrightarrow> fst (gateway_app up rq) = [])
   \<and> (req_method rq \<noteq> ''GET''
      \<and> (match_path (Rest ''/auth/'') (req_path rq) \<noteq> None
          \<or> match_path (Rest ''/users/'') (req_path rq) \<noteq> None) \<longrightarrow>
      snd (gateway_app up rq)
        = \<lparr>status = 405, media_type = ''application/json'',
           body = JsonContent (JObj [(''detail'', JStr ''Method Not Allowed'')])\<rparr>)"
proof (intro conjI impI; (elim conjE)?)
  assume g: "req_method rq = ''GET''"
    and m: "match_path (Rest ''/auth/'') (req_path rq) = Some p"
    and v: "\<not> invalid_url (''http://auth-service:8000/'' @ p)"
  show "sent (fst (gateway_app up rq))
        = [\<lparr>out_method = ''GET'', out_url = ''http://auth-service:8000/'' @ p,
            out_headers = [], out_body = [], out_timeout = 5\<rparr>]"
    unfolding gateway_auth_routed [OF g m] respond_fst auth_proxy_def fetch_json_sent
    using v by (simp add: client_get_def)
next
  assume g: "req_method rq = ''GET''"
    and m: "match_path (Rest ''/users/'') (req_path rq) = Some p"
    and v: "\<not> invalid_url (''http://user-service:8000/'' @ p)"
  show "sent (fst (gateway_app up rq))
        = [\<lparr>out_method = ''GET'', out_url = ''http://user-service:8000/'' @ p,
            out_headers = [], out_body = [], out_timeout = 5\<rparr>]"
    unfolding gateway_users_routed [OF g m] respond_fst user_proxy_def fetch_json_sent
    using v by (simp add: client_get_def)
next
  assume "req_method rq \<noteq> ''GET''"
  then show "fst (gateway_app up rq) = []"
    by (rule other_method_not_forwarded)
next
  assume n: "req_method rq \<noteq> ''GET''"
    and m: "match_path (Rest ''/auth/'') (req_path rq) \<noteq> None
            \<or> match_path (Rest ''/users/'') (req_path rq) \<noteq> None"
  have "gateway_app up rq = ([], method_not_allowed)"
    using m other_method_auth_405 [OF n] other_method_users_405 [OF n] by blast
  then show "snd (gateway_app up rq)
        = \<lparr>status = 405, media_type = ''application/json'',
           body = JsonContent (JObj [(''detail'', JStr ''Method Not Allowed'')])\<rparr>"
    by (simp add: method_not_allowed_def json_response_def)
qed

theorem forwards_get_with_url_only_witness:
  "sent (fst (gateway_app (replying empty_object_answer)
       \<lparr>req_method = ''GET'', req_path = ''/auth/health'', req_query = [],
         req_headers = [(''authorization'', ''Bearer mock-jwt-token'')], req_body = []\<rparr>))
     = [\<lparr>out_method = ''GET'', out_url = ''http://auth-service:8000/health'',
         out_headers = [], out_body = [], out_timeout = 5\<rparr>]
   \<and> gateway_app (replying empty_object_answer)
       \<lparr>req_method = ''POST'', req_path = ''/users/'', req_query = [],
         req_headers = [(''content-type'', ''application/json'')],
         req_body = ''{\"name\":\"John Doe\"}''\<rparr>
     = ([], \<lparr>status = 405, media_type = ''application/json'',
             body = JsonContent (JObj [(''detail'', JStr ''Method Not Allowed'')])\<rparr>)"
proof -
  have v: "\<not> invalid_url (''http://auth-service:8000/'' @ ''health'')"
    by (simp add: invalid_url_def char_count_def continuation_byte_def control_char_def)
  have a: "sent (fst (gateway_app (replying empty_object_answer)
       \<lparr>req_method = ''GET'', req_path = ''/auth/health'', req_query = [],
         req_headers = [(''authorization'', ''Bearer mock-jwt-token'')], req_body = []\<rparr>))
     = [\<lparr>out_method = ''GET'', out_url = ''http://auth-service:8000/health'',
         out_headers = [], out_body = [], out_timeout = 5\<rparr>]"
    using v forwards_get_with_url_only [of
      "\<lparr>req_method = ''GET'', req_path = ''/auth/health'', req_query = [],
         req_headers = [(''authorization'', ''Bearer mock-jwt-token'')], req_body = []\<rparr>"
      "''health''" "replying empty_object_answer"]
    by (simp add: Let_def)
  have b: "gateway_app (replying empty_object_answer)
       \<lparr>req_method = ''POST'', req_path = ''/users/'', req_query = [],
         req_headers = [(''content-type'', ''application/json'')],
         req_body = ''{\"name\":\"John Doe\"}''\<rparr>
     = ([], \<lparr>status = 405, media_type = ''application/json'',
             body = JsonContent (JObj [(''detail'', JStr ''Method Not Allowed'')])\<rparr>)"
    using forwards_get_with_url_only [of
      "\<lparr>req_method = ''POST'', req_path = ''/users/'', req_query = [],
         req_headers = [(''content-type'', ''application/json'')],
         req_body = ''{\"name\":\"John Doe\"}''\<rparr>"
      "[]" "replying empty_object_answer"]
    by (simp add: Let_def prod_eq_iff)
  show ?thesis using a b by (rule conjI)
qed

text \<open>A POST to /auth/login with a body is not forwarded; a GET with a header and a body
  is forwarded without them; a GET whose path parameter holds a tabulator is not
  forwarded.\<close>

theorem post_is_not_forwarded_counterexample:
  "sent (fst (gateway_app (replying empty_object_answer)
       \<lparr>req_method = ''POST'', req_path = ''/auth/login'', req_query = [],
         req_headers = [(''content-type'', ''application/json'')],
         req_body = ''{\"user\":\"john\"}''\<rparr>)) = []
   \<and> map out_headers (sent (fst (gateway_app (replying empty_object_answer)
       \<lparr>req_method = ''GET'', req_path = ''/auth/health'', req_query = [],
         req_headers = [(''authorization'', ''Bearer mock-jwt-token'')],
         req_body = ''ping''\<rparr>)))
     \<noteq> [[(''authorization'', ''Bearer mock-jwt-token'')]]
   \<and> map out_body (sent (fst (gateway_app (replying empty_object_answer)
       \<lparr>req_method = ''GET'', req_path = ''/auth/health'', req_query = [],
         req_headers = [(''authorization'', ''Bearer mock-jwt-token'')],
         req_body = ''ping''\<rparr>)))
     \<noteq> [''ping'']
   \<and> sent (fst (gateway_app (replying empty_object_answer)
       (http_get (''/auth/'' @ ''a'' @ [CHR 0x09] @ ''b'')))) = []"
  by (simp add: gateway_app_def serve_def gateway_routes_def fastapi_routes_def
      framework_route_def matches_def http_get_def respond_fst auth_proxy_def
      fetch_json_sent client_get_def invalid_url_def char_count_def continuation_byte_def
      control_char_def)

subsection \<open>C7: the health endpoint of the gateway\<close>

text \<open>C7: every GET request to /health on the gateway is answered with status 200 and
  the body {"status": "healthy", "service": "gateway"}, whatever its query string, headers
  and body, and without any use of the outbound client (no upstream is called).\<close>

theorem gateway_health_local:
  "gateway_app up \<lparr>req_method = ''GET'', req_path = ''/health'', req_query = q,
                    req_headers = h, req_body = b\<rparr>
   = ([], \<lparr>status = 200, media_type = ''application/json'',
           body = JsonContent (JObj [(''status'', JStr ''healthy''),
                                     (''service'', JStr ''gateway'')])\<rparr>)"
  by (simp add: gateway_app_def serve_def gateway_routes_def fastapi_routes_def
      framework_route_def matches_def respond_def json_response_def gateway_health_def)

subsection \<open>C8: the validation stub of the auth service\<close>

text \<open>C8: every POST request to /validate on the auth service is answered with status
  200 and the constant {"valid": true, "user_id": "123"}, whatever its query string,
  headers and body: nothing is ever rejected.\<close>

theorem validate_is_constant:
  "auth_app \<lparr>req_method = ''POST'', req_path = ''/validate'', req_query = q,
              req_headers = h, req_body = b\<rparr>
   = \<lparr>status = 200, media_type = ''application/json'',
      body = JsonContent (JObj [(''valid'', JBool True), (''user_id'', JStr ''123'')])\<rparr>"
  by (simp add: auth_app_def serve_def auth_routes_def fastapi_routes_def
      framework_route_def matches_def respond_def json_response_def validate_def)

subsection \<open>C9: the user lookup stub of the user service\<close>

text \<open>C9: for every string \<open>user_id\<close> the handler of GET /users/{user_id} returns the
  object whose "id" is \<open>user_id\<close> and whose "name" and "email" are the constants
  "John Doe" and "john@example.com"; and every GET request that this route matches, with
  \<open>user_id\<close> as the value of its parameter, is answered with status 200 and that object,
  never with a not-found result.\<close>

theorem get_user_echoes_id:
  "get_user user_id = JObj [(''id'', JStr user_id), (''name'', JStr ''John Doe''),
                            (''email'', JStr ''john@example.com'')]
   \<and> (req_method rq = ''GET'' \<and> match_path (Segment ''/users/'') (req_path rq) = Some user_id
        \<longrightarrow> user_app rq
            = \<lparr>status = 200, media_type = ''application/json'',
               body = JsonContent (JObj [(''id'', JStr user_id), (''name'', JStr ''John Doe''),
                                         (''email'', JStr ''john@example.com'')])\<rparr>)"
  by (auto simp add: get_user_def user_app_def serve_def user_routes_def fastapi_routes_def
      framework_route_def matches_def respond_def json_response_def
      split: option.splits if_splits dest!: strip_prefix_Some)

theorem get_user_echoes_id_witness:
  "user_app (http_get ''/users/123'')
     = \<lparr>status = 200, media_type = ''application/json'',
        body = JsonContent (JObj [(''id'', JStr ''123''), (''name'', JStr ''John Doe''),
                                  (''email'', JStr ''john@example.com'')])\<rparr>"
  using get_user_echoes_id [of "''123''" "http_get ''/users/123''"]
  by (simp add: http_get_def)

subsection \<open>C10: the query string\<close>

text \<open>C10: the query string of an inbound request never reaches an upstream: the
  outbound calls and the answer of the gateway are the same for every query string, and
  for a GET request that the /auth or the /users route matches, the URL of the upstream
  request is the base of the upstream followed by the value of the path parameter and
  nothing else (no request is sent when the client refuses this URL). The value of the
  path parameter is the remainder of the path after the prefix, less a line feed at its
  end.\<close>

theorem query_string_is_dropped:
  "gateway_app up (rq\<lparr>req_query := q\<rparr>) = gateway_app up rq
   \<and> (req_method rq = ''GET'' \<and> match_path (Rest ''/auth/'') (req_path rq) = Some p \<longrightarrow>
        map out_url (sent (fst (gateway_app up (rq\<lparr>req_query := q\<rparr>))))
          = (if invalid_url (''http://auth-service:8000/'' @ p) then []
             else [''http://auth-service:8000/'' @ p]))
   \<and> (req_method rq = ''GET'' \<and> match_path (Rest ''/users/'') (req_path rq) = Some p \<longrightarrow>
        map out_url (sent (fst (gateway_app up (rq\<lparr>req_query := q\<rparr>))))
          = (if invalid_url (''http://user-service:8000/'' @ p) then []
             else [''http://user-service:8000/'' @ p]))
   \<and> (match_path (Rest ''/auth/'') (req_path rq) = Some p \<longrightarrow>
        req_path rq = ''/auth/'' @ p \<or> req_path rq = ''/auth/'' @ p @ [CHR 0x0A])
   \<and> (match_path (Rest ''/users/'') (req_path rq) = Some p \<longrightarrow>
        req_path rq = ''/users/'' @ p \<or> req_path rq = ''/users/'' @ p @ [CHR 0x0A])"
proof (intro conjI impI; (elim conjE)?)
  {
    assume "match_path (Rest ''/auth/'') (req_path rq) = Some p"
    then show "req_path rq = ''/auth/'' @ p \<or> req_path rq = ''/auth/'' @ p @ [CHR 0x0A]"
      by (rule rest_match_shape)
  }
  {
    assume "match_path (Rest ''/users/'') (req_path rq) = Some p"
    then show "req_path rq = ''/users/'' @ p \<or> req_path rq = ''/users/'' @ p @ [CHR 0x0A]"
      by (rule rest_match_shape)
  }
  show i: "gateway_app up (rq\<lparr>req_query := q\<rparr>) = gateway_app up rq"
    by (simp add: gateway_app_def serve_query)
  {
    assume g: "req_method rq = ''GET''"
      and m: "match_path (Rest ''/auth/'') (req_path rq) = Some p"
    show "map out_url (sent (fst (gateway_app up (rq\<lparr>req_query := q\<rparr>))))
          = (if invalid_url (''http://auth-service:8000/'' @ p) then []
             else [''http://auth-service:8000/'' @ p])"
      unfolding i gateway_auth_routed [OF g m] respond_fst auth_proxy_def fetch_json_sent
      by (simp add: client_get_def)
  }
  {
    assume g: "req_method rq = ''GET''"
      and m: "match_path (Rest ''/users/'') (req_path rq) = Some p"
    show "map out_url (sent (fst (gateway_app up (rq\<lparr>req_query := q\<rparr>))))
          = (if invalid_url (''http://user-service:8000/'' @ p) then []
             else [''http://user-service:8000/'' @ p])"
      unfolding i gateway_users_routed [OF g m] respond_fst user_proxy_def fetch_json_sent
      by (simp add: client_get_def)
  }
qed

theorem query_string_is_dropped_witness:
  "map out_url (sent (fst (gateway_app (replying john_doe_answer)
       \<lparr>req_method = ''GET'', req_path = ''/users/123'', req_query = ''fields=name'',
         req_headers = [], req_body = []\<rparr>)))
     = [''http://user-service:8000/123'']"
  using query_string_is_dropped [where up = "replying john_doe_answer"
      and rq = "\<lparr>req_method = ''GET'', req_path = ''/users/123'', req_query = ''fields=name'',
         req_headers = [], req_body = []\<rparr>" and q = "''fields=name''" and p = "''123''"]
  by (simp add: Let_def invalid_url_def char_count_def continuation_byte_def
      control_char_def)

end
